theory Spec2Isabelle
  imports Main
begin

section \<open>The TextArea widget (mlworkflow/bokeh_utils/textarea.ts)\<close>

text \<open>
  The file declares a model class \<open>TextArea\<close> (two string properties on top of the
  host's \<open>InputWidget\<close>) and a view class \<open>TextAreaView\<close> with the methods
  \<open>initialize\<close>, \<open>connect_signals\<close>, \<open>css_classes\<close>, \<open>render\<close> and \<open>change_input\<close>.
  Every method is straight-line code over the view object, so each becomes a function
  from the state of the view to its new state. Calls that leave the component (the base
  class methods reached through \<open>super\<close>, the logger, the write to a model property)
  are recorded, in the order they happen, in the field \<open>calls\<close>. The source catches no
  exception, so a method that can raise returns either the view or the exception.
\<close>

subsection \<open>The model: \<open>TextArea.Attrs\<close> and \<open>TextArea.initClass\<close>\<close>

text \<open>
  \<open>TextArea.Attrs\<close> extends \<open>InputWidget.Attrs\<close> by \<open>value\<close> and \<open>placeholder\<close>. Of the
  inherited attributes the view reads \<open>id\<close>, \<open>title\<close>, \<open>name\<close> and \<open>disabled\<close>. The
  attributes \<open>id\<close> and \<open>value\<close> carry the suffix \<open>_attr\<close> here, the other names are the
  source's.
\<close>

record InputWidget_Attrs =
  id_attr :: string
  title :: string
  name :: string
  disabled :: bool

record TextArea_Attrs = InputWidget_Attrs +
  value_attr :: string
  placeholder :: string

text \<open>
  \<open>initClass\<close> hands the host a table with one row per property: its kind and its
  default. Both rows are \<open>[p.String, ""]\<close>.
\<close>

datatype property = Value | Placeholder

datatype kind = p_String

fun define_props :: "property \<Rightarrow> kind \<times> string" where
  "define_props Value = (p_String, '''')"
| "define_props Placeholder = (p_String, '''')"

definition TextArea_type :: string where
  "TextArea_type = ''TextArea''"

text \<open>
  Modelled from the spec: the constructor of the host's base class, which the source
  reaches through \<open>super(attrs)\<close>, is not in this repository. The constructor takes
  \<open>attrs?: Partial<TextArea.Attrs>\<close> and passes it on. \<open>base\<close> stands for the inherited
  attributes as the host sets them up; \<open>attrs\<close> holds the values given for the two
  declared properties, and a property that is not given takes the default of its row in
  the table above.
\<close>

definition prop_init :: "(property \<rightharpoonup> string) \<Rightarrow> property \<Rightarrow> string" where
  "prop_init attrs p = (case attrs p of None \<Rightarrow> snd (define_props p) | Some v \<Rightarrow> v)"

definition TextArea_new :: "InputWidget_Attrs \<Rightarrow> (property \<rightharpoonup> string) \<Rightarrow> TextArea_Attrs" where
  "TextArea_new base attrs =
     \<lparr>id_attr = id_attr base, title = title base, name = name base,
      disabled = disabled base,
      value_attr = prop_init attrs Value,
      placeholder = prop_init attrs Placeholder\<rparr>"

subsection \<open>DOM elements and the helpers of \<open>core/dom\<close>\<close>

text \<open>
  Modelled from the spec: the DOM and the construction helpers \<open>empty\<close>, \<open>label\<close> and
  \<open>textarea\<close> of \<open>core/dom\<close> belong to the host and are not in this repository. An
  element is what such a helper builds: a tag, the attribute object it was given, its
  text (the text child the helper was given, or what the user has typed since), and the
  listeners added since. An attribute is a string, a boolean or a style object. The only
  listener this file ever creates is the closure \<open>() => this.change_input()\<close>.
\<close>

datatype attr = Str string | Flag bool | Style "(string \<times> string) list"

datatype listener = ChangeInputListener

record element =
  tag :: string
  attrs :: "(string \<times> attr) list"
  content :: string
  listeners :: "(string \<times> listener) list"

text \<open>
  Modelled from the spec: the browser's text-area is not in this repository, and the
  spec speaks only of its displayed value. By the HTML standard, what a text-area
  displays, and what its \<open>value\<close> property reads, is its text with every line break
  normalised: a carriage return followed by a line feed, and a carriage return alone,
  each become one line feed.
\<close>

definition CR :: char where
  "CR = CHR 0x0D"

definition LF :: char where
  "LF = CHR 0x0A"

fun normalize_newlines :: "string \<Rightarrow> string" where
  "normalize_newlines [] = []"
| "normalize_newlines [c] = (if c = CR then [LF] else [c])"
| "normalize_newlines (c # d # cs) =
     (if c = CR
      then (if d = LF then LF # normalize_newlines cs else LF # normalize_newlines (d # cs))
      else c # normalize_newlines (d # cs))"

definition value_of :: "element \<Rightarrow> string" where
  "value_of e = normalize_newlines (content e)"

definition createElement :: "string \<Rightarrow> (string \<times> attr) list \<Rightarrow> string \<Rightarrow> element" where
  "createElement t as c = \<lparr>tag = t, attrs = as, content = c, listeners = []\<rparr>"

definition label :: "(string \<times> attr) list \<Rightarrow> string \<Rightarrow> element" where
  "label as c = createElement ''label'' as c"

definition textarea :: "(string \<times> attr) list \<Rightarrow> string \<Rightarrow> element" where
  "textarea as c = createElement ''textarea'' as c"

text \<open>The content of \<open>this.el\<close> is the list of its children.\<close>

definition empty_el :: "element list \<Rightarrow> element list" where
  "empty_el children = []"

definition appendChild :: "element list \<Rightarrow> element \<Rightarrow> element list" where
  "appendChild children c = children @ [c]"

definition addEventListener :: "element \<Rightarrow> string \<Rightarrow> listener \<Rightarrow> element" where
  "addEventListener e ev l = e\<lparr>listeners := listeners e @ [(ev, l)]\<rparr>"

definition is_disabled :: "element \<Rightarrow> bool" where
  "is_disabled e = (map_of (attrs e) ''disabled'' = Some (Flag True))"

subsection \<open>The view object\<close>

text \<open>
  \<open>model\<close> and \<open>el\<close> are the fields the base class owns. \<open>inputEl\<close> is this class's own
  field: nothing assigns it before \<open>render\<close> does, so it is \<open>None\<close> (JavaScript's
  \<open>undefined\<close>) until then. \<open>slots\<close> are the closures connected to \<open>this.model.change\<close>;
  the only one this file connects is \<open>() => this.render()\<close>.
\<close>

datatype 'o event =
    SuperInitialize 'o
  | SuperConnectSignals
  | SuperRender
  | SuperChangeInput
  | LoggerDebug string
  | SetValue string

datatype slot = RenderSlot

datatype error = TypeError | HookError

record 'o view =
  model :: TextArea_Attrs
  el :: "element list"
  inputEl :: "element option"
  slots :: "slot list"
  calls :: "'o event list"

definition call :: "'o event \<Rightarrow> 'o view \<Rightarrow> 'o view" where
  "call ev s = s\<lparr>calls := calls s @ [ev]\<rparr>"

subsection \<open>\<open>TextAreaView\<close>\<close>

text \<open>\<open>css_classes\<close>: the base class's list with one more class at its end.\<close>

definition css_classes :: "string list \<Rightarrow> string list" where
  "css_classes super_css_classes = super_css_classes @ [''bk-widget-form-group'']"

text \<open>
  \<open>render\<close>, statement by statement: \<open>super.render()\<close>, \<open>empty(this.el)\<close>, the label and
  its \<open>appendChild\<close>, the text-area stored in \<open>this.inputEl\<close>, its listener, and its
  \<open>appendChild\<close>.
\<close>

definition render :: "'o view \<Rightarrow> 'o view" where
  "render s =
     (let s1 = call SuperRender s;
          s2 = s1\<lparr>el := empty_el (el s1)\<rparr>;
          labelEl = label [(''for'', Str (id_attr (model s2)))] (title (model s2));
          s3 = s2\<lparr>el := appendChild (el s2) labelEl\<rparr>;
          created = textarea
            [(''class'', Str ''bk-widget-form-input''),
             (''id'', Str (id_attr (model s3))),
             (''name'', Str (name (model s3))),
             (''disabled'', Flag (disabled (model s3))),
             (''placeholder'', Str (placeholder (model s3))),
             (''style'', Style [(''minWidth'', ''90%''), (''minHeight'', ''100%'')])]
            (value_attr (model s3));
          listening = addEventListener created ''change'' ChangeInputListener;
          s4 = s3\<lparr>inputEl := Some listening\<rparr>
      in s4\<lparr>el := appendChild (el s4) listening\<rparr>)"

text \<open>\<open>initialize\<close>: \<open>super.initialize(options)\<close>, then \<open>this.render()\<close>.\<close>

definition initialize :: "'o \<Rightarrow> 'o view \<Rightarrow> 'o view" where
  "initialize options s = render (call (SuperInitialize options) s)"

text \<open>
  \<open>connect_signals\<close>: \<open>super.connect_signals()\<close>, then the closure \<open>() => this.render()\<close>
  is connected to \<open>this.model.change\<close>.
\<close>

definition connect_signals :: "'o view \<Rightarrow> 'o view" where
  "connect_signals s =
     (let s1 = call SuperConnectSignals s in s1\<lparr>slots := slots s1 @ [RenderSlot]\<rparr>)"

text \<open>
  Modelled from the spec: the host's signal mechanism (\<open>connect\<close> and the emission of
  \<open>this.model.change\<close>) is not in this repository. When the signal is emitted, the
  connected slots run in the order they were connected.
\<close>

fun run_slot :: "slot \<Rightarrow> 'o view \<Rightarrow> 'o view" where
  "run_slot RenderSlot s = render s"

definition emit_change :: "'o view \<Rightarrow> 'o view" where
  "emit_change s = fold run_slot (slots s) s"

text \<open>
  Modelled from the spec: the host's property setter is not in this repository. The
  assignment \<open>this.model.value = value\<close> goes through it. The setter stores the value;
  whether it then emits \<open>change\<close> is the host's decision, taken from the old and the new
  value. That decision is the parameter \<open>notify\<close>, so that every result below holds
  for a host that always emits as well as for one that emits only when the value
  differs. The observers that run on the emission are the slots this file connects;
  other observers of the model are the host's own and are not part of the view.
\<close>

definition set_value :: "(string \<Rightarrow> string \<Rightarrow> bool) \<Rightarrow> string \<Rightarrow> 'o view \<Rightarrow> 'o view" where
  "set_value notify v s =
     (let old = value_attr (model s);
          s1 = call (SetValue v) (s\<lparr>model := (model s)\<lparr>value_attr := v\<rparr>\<rparr>)
      in if notify old v then emit_change s1 else s1)"

text \<open>
  Modelled from the spec: the base class's \<open>change_input\<close>, the host's generic "value
  changed" hook, is not in this repository. It passes the change on to the host's change
  pipeline, which runs the callback registered on the widget, and that callback can
  raise. \<open>hook_raises\<close> says whether it does, given the attributes the model has when the
  hook is called. The host, as far as this component depends on it, is these two
  decisions.
\<close>

record host =
  notifies :: "string \<Rightarrow> string \<Rightarrow> bool"
  hook_raises :: "TextArea_Attrs \<Rightarrow> bool"

text \<open>
  A method that can raise gives \<open>Inr\<close> with the view when it returns, and \<open>Inl\<close> with the
  exception and the view as it is at the throw when it does not. The source has no
  \<open>try\<close>: an exception raised inside a method leaves the method.
\<close>

type_synonym 'o result = "(error \<times> 'o view) + 'o view"

definition final_view :: "'o result \<Rightarrow> 'o view" where
  "final_view r = (case r of Inl (err, s) \<Rightarrow> s | Inr s \<Rightarrow> s)"


text \<open>
  \<open>change_input\<close>: read \<open>this.inputEl.value\<close>, log it at debug level, assign it to
  \<open>this.model.value\<close>, call \<open>super.change_input()\<close>. Reading a property of \<open>undefined\<close>
  is a \<open>TypeError\<close> in JavaScript; an exception of the hook is not caught.
\<close>

definition change_input :: "host \<Rightarrow> 'o view \<Rightarrow> 'o result" where
  "change_input h s =
     (case inputEl s of
        None \<Rightarrow> Inl (TypeError, s)
      | Some e \<Rightarrow>
          (let v = value_of e;
               s1 = call (LoggerDebug (''widget/textarea: value = '' @ v)) s;
               s2 = set_value (notifies h) v s1;
               s3 = call SuperChangeInput s2
           in if hook_raises h (model s3) then Inl (HookError, s3) else Inr s3))"

subsection \<open>The page around the view\<close>

text \<open>
  Modelled from the spec: the browser is not in this repository. The user edits the
  text-area on the page: the element \<open>this.inputEl\<close> refers to, which is the same object
  as the child of \<open>this.el\<close>, then holds the typed text.
\<close>

definition user_edit :: "string \<Rightarrow> 'o view \<Rightarrow> 'o view" where
  "user_edit typed s =
     (case inputEl s of
        None \<Rightarrow> s
      | Some e \<Rightarrow>
          s\<lparr>inputEl := Some (e\<lparr>content := typed\<rparr>),
            el := map (\<lambda>c. if c = e then e\<lparr>content := typed\<rparr> else c) (el s)\<rparr>)"

text \<open>
  The browser fires \<open>change\<close> on the text-area: the listeners registered on it for that
  event run in the order they were added.
\<close>

fun run_listeners :: "host \<Rightarrow> (string \<times> listener) list \<Rightarrow> 'o view \<Rightarrow> 'o result" where
  "run_listeners h [] s = Inr s"
| "run_listeners h ((ev, ChangeInputListener) # ls) s =
     (if ev = ''change''
      then (case change_input h s of
              Inl raised \<Rightarrow> Inl raised
            | Inr s' \<Rightarrow> run_listeners h ls s')
      else run_listeners h ls s)"

definition dispatch_change :: "host \<Rightarrow> 'o view \<Rightarrow> 'o result" where
  "dispatch_change h s =
     (case inputEl s of
        None \<Rightarrow> Inr s
      | Some e \<Rightarrow> run_listeners h (listeners e) s)"

subsection \<open>What the view is expected to show\<close>

text \<open>
  The two elements a rendered view shows for the model attributes \<open>m\<close>, written out as
  plain records. The properties below compare the result of \<open>render\<close> with them.
\<close>

definition label_of :: "TextArea_Attrs \<Rightarrow> element" where
  "label_of m =
     \<lparr>tag = ''label'', attrs = [(''for'', Str (id_attr m))], content = title m,
      listeners = []\<rparr>"

definition textarea_of :: "TextArea_Attrs \<Rightarrow> element" where
  "textarea_of m =
     \<lparr>tag = ''textarea'',
      attrs = [(''class'', Str ''bk-widget-form-input''),
               (''id'', Str (id_attr m)),
               (''name'', Str (name m)),
               (''disabled'', Flag (disabled m)),
               (''placeholder'', Str (placeholder m)),
               (''style'', Style [(''minWidth'', ''90%''), (''minHeight'', ''100%'')])],
      content = value_attr m,
      listeners = [(''change'', ChangeInputListener)]\<rparr>"

subsection \<open>The life of a view\<close>

text \<open>
  Modelled from the spec: the host that drives the view is not in this repository.
  What happens to a view is a sequence of these actions: the host calls \<open>render\<close> or
  \<open>connect_signals\<close>, \<open>change_input\<close> is called, the browser fires \<open>change\<close> on the
  text-area, the user edits the text-area, or the host changes tracked properties of the
  model (which then has the attributes \<open>m\<close>) and emits \<open>this.model.change\<close>. An
  exception ends the action in which it is raised and nothing else: the view stays as it
  is at the throw, and the next action finds it so.
\<close>

definition model_changed :: "TextArea_Attrs \<Rightarrow> 'o view \<Rightarrow> 'o view" where
  "model_changed m s = emit_change (s\<lparr>model := m\<rparr>)"

datatype action =
    Render
  | ConnectSignals
  | ChangeInput
  | FireChange
  | UserEdit string
  | ModelChange TextArea_Attrs

fun step :: "host \<Rightarrow> action \<Rightarrow> 'o view \<Rightarrow> 'o result" where
  "step h Render s = Inr (render s)"
| "step h ConnectSignals s = Inr (connect_signals s)"
| "step h ChangeInput s = change_input h s"
| "step h FireChange s = dispatch_change h s"
| "step h (UserEdit typed) s = Inr (user_edit typed s)"
| "step h (ModelChange m) s = Inr (model_changed m s)"

fun exec :: "host \<Rightarrow> action list \<Rightarrow> 'o view \<Rightarrow> 'o view" where
  "exec h [] s = s"
| "exec h (x # xs) s = exec h xs (final_view (step h x s))"

subsection \<open>Concrete views and hosts\<close>

text \<open>
  A view object before \<open>initialize\<close>, over a model built with no explicit attributes,
  and the same view after \<open>initialize\<close>, \<open>connect_signals\<close> and the user typing
  \<open>hello\<close>. Two hosts that emit \<open>change\<close> when a value differs from the old one: the
  callback of the first never raises, the callback of the second always does. A text of
  two lines with the line break written as carriage return and line feed, and a view
  whose model has that text as its \<open>value\<close>.
\<close>

definition fresh_view :: "unit view" where
  "fresh_view =
     \<lparr>model = TextArea_new
        \<lparr>id_attr = ''1001'', title = ''Notes'', name = ''notes'', disabled = False\<rparr> Map.empty,
      el = [], inputEl = None, slots = [], calls = []\<rparr>"

definition hello_view :: "unit view" where
  "hello_view = user_edit ''hello'' (connect_signals (initialize () fresh_view))"

definition quiet_host :: host where
  "quiet_host = \<lparr>notifies = (\<lambda>old new. old \<noteq> new), hook_raises = (\<lambda>m. False)\<rparr>"


definition crlf_text :: string where
  "crlf_text = [CHR ''a'', CR, LF, CHR ''b'']"

definition crlf_view :: "unit view" where
  "crlf_view = fresh_view\<lparr>model := (model fresh_view)\<lparr>value_attr := crlf_text\<rparr>\<rparr>"

section \<open>Properties\<close>

subsection \<open>What \<open>render\<close> leaves behind\<close>

lemma render_model: "model (render s) = model s"
  by (simp add: render_def call_def Let_def)

lemma render_slots: "slots (render s) = slots s"
  by (simp add: render_def call_def Let_def)

lemma render_calls: "calls (render s) = calls s @ [SuperRender]"
  by (simp add: render_def call_def Let_def)

lemma render_el: "el (render s) = [label_of (model s), textarea_of (model s)]"
  by (simp add: render_def call_def Let_def empty_el_def appendChild_def label_def
      textarea_def createElement_def addEventListener_def label_of_def textarea_of_def)

lemma render_inputEl: "inputEl (render s) = Some (textarea_of (model s))"
  by (simp add: render_def call_def Let_def textarea_def createElement_def
      addEventListener_def textarea_of_def)

lemma render_eq:
  "render s =
     s\<lparr>calls := calls s @ [SuperRender],
       el := [label_of (model s), textarea_of (model s)],
       inputEl := Some (textarea_of (model s))\<rparr>"
  by (simp add: render_def call_def Let_def empty_el_def appendChild_def label_def
      textarea_def createElement_def addEventListener_def label_of_def textarea_of_def)

lemma content_textarea_of: "content (textarea_of m) = value_attr m"
  by (simp add: textarea_of_def)

lemma listeners_textarea_of: "listeners (textarea_of m) = [(''change'', ChangeInputListener)]"
  by (simp add: textarea_of_def)

text \<open>
  C10. \<open>render\<close> never changes the model: the attributes of the model, \<open>value\<close> and
  \<open>placeholder\<close> among them, are the same before and after. The whole effect of
  \<open>render\<close> is one call of the base class's \<open>render\<close> and a new content of \<open>this.el\<close>
  and \<open>this.inputEl\<close>, both computed from the model alone.
\<close>

theorem render_keeps_model:
  "model (render s) = model s \<and>
   render s = s\<lparr>calls := calls s @ [SuperRender],
                el := [label_of (model s), textarea_of (model s)],
                inputEl := Some (textarea_of (model s))\<rparr>"
  using render_eq [of s] by (simp add: render_model)

subsection \<open>Firing \<open>change\<close> on a rendered text-area\<close>

lemma dispatch_change_rendered:
  "inputEl s = Some e \<Longrightarrow> listeners e = [(''change'', ChangeInputListener)] \<Longrightarrow>
   dispatch_change n s = change_input n s"
  by (simp add: dispatch_change_def split: sum.splits)

text \<open>
  C2. Whatever \<open>this.el\<close> held before, after \<open>render\<close> it holds exactly two children, in
  this order: a label whose \<open>for\<close> is the model's id and whose text is the model's title,
  and a text-area whose \<open>id\<close>, \<open>name\<close>, \<open>disabled\<close> and \<open>placeholder\<close> are the model's,
  whose style is the fixed \<open>minWidth: 90%\<close>, \<open>minHeight: 100%\<close>, and whose content is the
  model's \<open>value\<close>. That text-area is \<open>this.inputEl\<close>, and it carries one listener, for
  \<open>change\<close>: firing \<open>change\<close> on it is a call of \<open>change_input\<close>.
\<close>

theorem render_builds_label_and_textarea:
  "el (render s) =
     [\<lparr>tag = ''label'', attrs = [(''for'', Str (id_attr (model s)))],
       content = title (model s), listeners = []\<rparr>,
      \<lparr>tag = ''textarea'',
       attrs = [(''class'', Str ''bk-widget-form-input''),
                (''id'', Str (id_attr (model s))),
                (''name'', Str (name (model s))),
                (''disabled'', Flag (disabled (model s))),
                (''placeholder'', Str (placeholder (model s))),
                (''style'', Style [(''minWidth'', ''90%''), (''minHeight'', ''100%'')])],
       content = value_attr (model s),
       listeners = [(''change'', ChangeInputListener)]\<rparr>] \<and>
   inputEl (render s) = Some (last (el (render s))) \<and>
   dispatch_change n (render s) = change_input n (render s)"
proof -
  have "dispatch_change n (render s) = change_input n (render s)"
    using render_inputEl listeners_textarea_of by (rule dispatch_change_rendered)
  then show ?thesis
    by (simp add: render_el render_inputEl label_of_def textarea_of_def)
qed

text \<open>
  C7. The text-area that \<open>render\<close> produces is disabled exactly when the model's
  \<open>disabled\<close> flag is true: with the flag true it carries the \<open>disabled\<close> attribute, with
  the flag false it is not disabled.
\<close>

theorem render_disabled:
  "\<exists>e. inputEl (render s) = Some e \<and> e \<in> set (el (render s)) \<and> tag e = ''textarea'' \<and>
       is_disabled e = disabled (model s)"
  by (simp add: render_inputEl render_el textarea_of_def is_disabled_def)

subsection \<open>\<open>initialize\<close> and the defaults of the model\<close>

text \<open>
  C6. For every options argument, \<open>initialize\<close> calls the base class's \<open>initialize\<close>
  with it and then renders exactly once: the calls it adds are those two, in that order,
  and the view it returns shows the label and the text-area of its model.
\<close>

theorem initialize_renders_once:
  "calls (initialize options s) = calls s @ [SuperInitialize options, SuperRender] \<and>
   el (initialize options s) = [label_of (model s), textarea_of (model s)] \<and>
   inputEl (initialize options s) = Some (textarea_of (model s)) \<and>
   model (initialize options s) = model s"
  by (simp add: initialize_def render_calls render_el render_inputEl render_model call_def)

text \<open>
  C3. A \<open>TextArea\<close> built with no explicit attributes has the empty string as its
  \<open>value\<close> and as its \<open>placeholder\<close>: both rows of the property table give the default
  \<open>""\<close>.
\<close>

theorem TextArea_defaults:
  "value_attr (TextArea_new base Map.empty) = '''' \<and>
   placeholder (TextArea_new base Map.empty) = '''' \<and>
   define_props Value = (p_String, '''') \<and> define_props Placeholder = (p_String, '''')"
  by (simp add: TextArea_new_def prop_init_def)

subsection \<open>Emitting \<open>change\<close>\<close>

lemma run_slot_model: "model (run_slot x s) = model s"
  by (cases x) (simp add: render_model)

lemma run_slot_slots: "slots (run_slot x s) = slots s"
  by (cases x) (simp add: render_slots)

lemma run_slot_calls: "calls (run_slot x s) = calls s @ [SuperRender]"
  by (cases x) (simp add: render_calls)

lemma fold_run_slot_model: "model (fold run_slot sl s) = model s"
  by (induction sl arbitrary: s) (simp_all add: run_slot_model)

lemma fold_run_slot_slots: "slots (fold run_slot sl s) = slots s"
  by (induction sl arbitrary: s) (simp_all add: run_slot_slots)

lemma fold_run_slot_calls:
  "calls (fold run_slot sl s) = calls s @ replicate (length sl) SuperRender"
proof (induction sl arbitrary: s)
  case Nil
  show ?case by simp
next
  case (Cons x xs)
  have "calls (fold run_slot (x # xs) s) = calls (run_slot x s) @ replicate (length xs) SuperRender"
    using Cons.IH [of "run_slot x s"] by simp
  then show ?case
    by (simp add: run_slot_calls replicate_append_same)
qed

text \<open>The last slot to run is a \<open>render\<close>, so its result is what the view shows.\<close>

lemma fold_run_slot_inputEl:
  "inputEl (fold run_slot sl s) = (if sl = [] then inputEl s else Some (textarea_of (model s)))"
proof (induction sl arbitrary: s rule: rev_induct)
  case Nil
  show ?case by simp
next
  case (snoc x xs)
  show ?case
    by (cases x) (simp add: render_inputEl render_model fold_run_slot_model)
qed

lemma fold_run_slot_el:
  "el (fold run_slot sl s) =
     (if sl = [] then el s else [label_of (model s), textarea_of (model s)])"
proof (induction sl arbitrary: s rule: rev_induct)
  case Nil
  show ?case by simp
next
  case (snoc x xs)
  show ?case
    by (cases x) (simp add: render_el render_model fold_run_slot_model)
qed

lemma emit_change_model: "model (emit_change s) = model s"
  by (simp add: emit_change_def fold_run_slot_model)

lemma emit_change_slots: "slots (emit_change s) = slots s"
  by (simp add: emit_change_def fold_run_slot_slots)

lemma emit_change_calls:
  "calls (emit_change s) = calls s @ replicate (length (slots s)) SuperRender"
  by (simp add: emit_change_def fold_run_slot_calls)

lemma emit_change_inputEl:
  "inputEl (emit_change s) = (if slots s = [] then inputEl s else Some (textarea_of (model s)))"
  by (simp add: emit_change_def fold_run_slot_inputEl)

lemma emit_change_el:
  "el (emit_change s) = (if slots s = [] then el s else [label_of (model s), textarea_of (model s)])"
  by (simp add: emit_change_def fold_run_slot_el)

subsection \<open>The property setter\<close>

lemma set_value_model: "model (set_value n v s) = (model s)\<lparr>value_attr := v\<rparr>"
  by (simp add: set_value_def Let_def call_def emit_change_model)

lemma set_value_slots: "slots (set_value n v s) = slots s"
  by (simp add: set_value_def Let_def call_def emit_change_slots)

lemma set_value_calls:
  "calls (set_value n v s) =
     calls s @ SetValue v #
       (if n (value_attr (model s)) v then replicate (length (slots s)) SuperRender else [])"
  by (simp add: set_value_def Let_def call_def emit_change_calls)

lemma set_value_inputEl:
  "inputEl (set_value n v s) =
     (if n (value_attr (model s)) v \<and> slots s \<noteq> []
      then Some (textarea_of ((model s)\<lparr>value_attr := v\<rparr>)) else inputEl s)"
  by (simp add: set_value_def Let_def call_def emit_change_inputEl)

lemma set_value_el:
  "el (set_value n v s) =
     (if n (value_attr (model s)) v \<and> slots s \<noteq> []
      then [label_of ((model s)\<lparr>value_attr := v\<rparr>), textarea_of ((model s)\<lparr>value_attr := v\<rparr>)]
      else el s)"
  by (simp add: set_value_def Let_def call_def emit_change_el)

subsection \<open>\<open>connect_signals\<close>\<close>

lemma connect_signals_slots: "slots (connect_signals s) = slots s @ [RenderSlot]"
  by (simp add: connect_signals_def call_def Let_def)

lemma connect_signals_calls: "calls (connect_signals s) = calls s @ [SuperConnectSignals]"
  by (simp add: connect_signals_def call_def Let_def)

lemma connect_signals_inputEl: "inputEl (connect_signals s) = inputEl s"
  by (simp add: connect_signals_def call_def Let_def)

lemma connect_signals_el: "el (connect_signals s) = el s"
  by (simp add: connect_signals_def call_def Let_def)

lemma connect_signals_model: "model (connect_signals s) = model s"
  by (simp add: connect_signals_def call_def Let_def)

lemma model_changed_connected:
  "slots s \<noteq> [] \<Longrightarrow>
   el (model_changed m s) = [label_of m, textarea_of m] \<and>
   inputEl (model_changed m s) = Some (textarea_of m) \<and>
   model (model_changed m s) = m"
  by (simp add: model_changed_def emit_change_el emit_change_inputEl emit_change_model)

subsection \<open>Line breaks in a text-area\<close>

lemma CR_neq_LF: "CR \<noteq> LF"
  by (simp add: CR_def LF_def)

lemma normalize_newlines_no_CR: "CR \<notin> set (normalize_newlines v)"
  using CR_neq_LF by (induction v rule: normalize_newlines.induct) auto

lemma normalize_newlines_id: "CR \<notin> set v \<Longrightarrow> normalize_newlines v = v"
  by (induction v rule: normalize_newlines.induct) auto

lemma normalize_newlines_idem: "normalize_newlines (normalize_newlines v) = normalize_newlines v"
  by (simp add: normalize_newlines_id normalize_newlines_no_CR)

lemma normalize_newlines_fixed: "(normalize_newlines v = v) = (CR \<notin> set v)"
proof
  assume "normalize_newlines v = v"
  with normalize_newlines_no_CR [of v] show "CR \<notin> set v" by simp
next
  assume "CR \<notin> set v"
  then show "normalize_newlines v = v" by (rule normalize_newlines_id)
qed

lemma value_of_textarea_of: "value_of (textarea_of m) = normalize_newlines (value_attr m)"
  by (simp add: value_of_def textarea_of_def)

lemma normalize_newlines_hello: "normalize_newlines ''hello'' = ''hello''"
  by (rule normalize_newlines_id) (simp add: CR_def)

lemma crlf_text_changes: "normalize_newlines crlf_text \<noteq> crlf_text"
  by (simp add: normalize_newlines_fixed) (simp add: crlf_text_def)

subsection \<open>\<open>change_input\<close>\<close>

lemma change_input_Some:
  "inputEl s = Some e \<Longrightarrow>
   change_input h s =
     (if hook_raises h
           (model (call SuperChangeInput
             (set_value (notifies h) (value_of e)
               (call (LoggerDebug (''widget/textarea: value = '' @ value_of e)) s))))
      then Inl (HookError,
             call SuperChangeInput
               (set_value (notifies h) (value_of e)
                 (call (LoggerDebug (''widget/textarea: value = '' @ value_of e)) s)))
      else Inr (call SuperChangeInput
             (set_value (notifies h) (value_of e)
               (call (LoggerDebug (''widget/textarea: value = '' @ value_of e)) s))))"
  by (simp add: change_input_def Let_def)

lemma change_input_None: "inputEl s = None \<Longrightarrow> change_input h s = Inl (TypeError, s)"
  by (simp add: change_input_def)

lemma user_edit_inputEl:
  "inputEl (user_edit typed s) = map_option (\<lambda>e. e\<lparr>content := typed\<rparr>) (inputEl s)"
  by (simp add: user_edit_def split: option.splits)

lemma user_edit_slots: "slots (user_edit typed s) = slots s"
  by (simp add: user_edit_def split: option.splits)

text \<open>The concrete view, field by field.\<close>

lemma hello_view_inputEl:
  "inputEl hello_view = Some ((textarea_of (model fresh_view))\<lparr>content := ''hello''\<rparr>)"
  by (simp add: hello_view_def user_edit_inputEl connect_signals_inputEl initialize_def
      render_inputEl call_def)

lemma hello_view_el:
  "el hello_view =
     [label_of (model fresh_view), (textarea_of (model fresh_view))\<lparr>content := ''hello''\<rparr>]"
  by (simp add: hello_view_def user_edit_def connect_signals_inputEl connect_signals_el
      initialize_def render_inputEl render_el call_def label_of_def textarea_of_def)

lemma hello_view_calls: "calls hello_view = [SuperInitialize (), SuperRender, SuperConnectSignals]"
  by (simp add: hello_view_def user_edit_def connect_signals_inputEl initialize_def
      render_inputEl connect_signals_calls render_calls call_def fresh_view_def)

lemma hello_view_slots: "slots hello_view = [RenderSlot]"
  by (simp add: hello_view_def user_edit_def connect_signals_inputEl initialize_def
      render_inputEl connect_signals_slots render_slots call_def fresh_view_def)

lemma hello_view_model: "model hello_view = model fresh_view"
  by (simp add: hello_view_def user_edit_def connect_signals_inputEl initialize_def
      render_inputEl connect_signals_model render_model call_def)

lemma fresh_view_model:
  "model fresh_view =
     \<lparr>id_attr = ''1001'', title = ''Notes'', name = ''notes'', disabled = False,
      value_attr = '''', placeholder = ''''\<rparr>"
  by (simp add: fresh_view_def TextArea_new_def prop_init_def)

lemma fresh_view_value: "value_attr (model fresh_view) = []"
  by (simp add: fresh_view_model)

lemma hello_view_value:
  "value_of ((textarea_of (model fresh_view))\<lparr>content := ''hello''\<rparr>) = ''hello''"
  by (simp add: value_of_def normalize_newlines_hello del: normalize_newlines.simps)

text \<open>
  C1. For every text \<open>v\<close> that the text-area of the view displays, \<open>change_input\<close> reads
  it, the model's \<open>value\<close> is \<open>v\<close> afterwards, and the calls it makes are, in this order:
  the debug message \<open>widget/textarea: value = v\<close>, the assignment of \<open>v\<close> to the model's
  \<open>value\<close>, the re-renders of the connected slots if the host emits \<open>change\<close> for that
  assignment, and last the base class's \<open>change_input\<close>. It returns when that hook
  returns, and all of this holds as well at the throw when the hook raises. In
  particular, when the user types \<open>hello\<close> into a rendered text-area and \<open>change\<close> fires,
  the model's \<open>value\<close> is \<open>hello\<close>.
\<close>

theorem change_input_writes_back:
  assumes "inputEl s = Some e"
  shows "(\<exists>s'. change_input h s =
              (if hook_raises h (model s') then Inl (HookError, s') else Inr s') \<and>
            value_attr (model s') = value_of e \<and>
            calls s' = calls s @
              [LoggerDebug (''widget/textarea: value = '' @ value_of e), SetValue (value_of e)] @
              (if notifies h (value_attr (model s)) (value_of e)
               then replicate (length (slots s)) SuperRender else []) @
              [SuperChangeInput]) \<and>
         (\<exists>s'. dispatch_change h (user_edit ''hello'' (render s0)) =
              (if hook_raises h (model s') then Inl (HookError, s') else Inr s') \<and>
            value_attr (model s') = ''hello'')"
proof
  let ?s1 = "call (LoggerDebug (''widget/textarea: value = '' @ value_of e)) s"
  let ?s' = "call SuperChangeInput (set_value (notifies h) (value_of e) ?s1)"
  have "change_input h s = (if hook_raises h (model ?s') then Inl (HookError, ?s') else Inr ?s')"
    using assms by (rule change_input_Some)
  moreover have "value_attr (model ?s') = value_of e"
    by (simp add: call_def set_value_model)
  moreover have "calls ?s' = calls s @
      [LoggerDebug (''widget/textarea: value = '' @ value_of e), SetValue (value_of e)] @
      (if notifies h (value_attr (model s)) (value_of e)
       then replicate (length (slots s)) SuperRender else []) @ [SuperChangeInput]"
    by (simp add: call_def set_value_calls)
  ultimately show "\<exists>s'. change_input h s =
              (if hook_raises h (model s') then Inl (HookError, s') else Inr s') \<and>
            value_attr (model s') = value_of e \<and>
            calls s' = calls s @
              [LoggerDebug (''widget/textarea: value = '' @ value_of e), SetValue (value_of e)] @
              (if notifies h (value_attr (model s)) (value_of e)
               then replicate (length (slots s)) SuperRender else []) @
              [SuperChangeInput]"
    by blast
next
  let ?t = "user_edit ''hello'' (render s0)"
  let ?e = "(textarea_of (model s0))\<lparr>content := ''hello''\<rparr>"
  let ?s' = "call SuperChangeInput (set_value (notifies h) (value_of ?e)
      (call (LoggerDebug (''widget/textarea: value = '' @ value_of ?e)) ?t))"
  have i: "inputEl ?t = Some ?e"
    by (simp add: user_edit_def render_inputEl)
  have "listeners ?e = [(''change'', ChangeInputListener)]"
    by (simp add: listeners_textarea_of)
  with i have "dispatch_change h ?t = change_input h ?t"
    by (rule dispatch_change_rendered)
  also have "\<dots> = (if hook_raises h (model ?s') then Inl (HookError, ?s') else Inr ?s')"
    using i by (rule change_input_Some)
  finally have "dispatch_change h ?t =
      (if hook_raises h (model ?s') then Inl (HookError, ?s') else Inr ?s')" .
  moreover have "value_attr (model ?s') = ''hello''"
    by (simp add: call_def set_value_model value_of_def normalize_newlines_hello
        del: normalize_newlines.simps)
  ultimately show "\<exists>s'. dispatch_change h ?t =
      (if hook_raises h (model s') then Inl (HookError, s') else Inr s') \<and>
      value_attr (model s') = ''hello''"
    by blast
qed

theorem change_input_writes_back_witness:
  "inputEl hello_view = Some ((textarea_of (model fresh_view))\<lparr>content := ''hello''\<rparr>) \<and>
   (\<exists>s'. change_input quiet_host hello_view = Inr s' \<and> value_attr (model s') = ''hello'' \<and>
      calls s' = [SuperInitialize (), SuperRender, SuperConnectSignals,
                  LoggerDebug ''widget/textarea: value = hello'', SetValue ''hello'',
                  SuperRender, SuperChangeInput])"
  using change_input_writes_back [OF hello_view_inputEl, of quiet_host fresh_view]
    hello_view_inputEl
  by (simp add: hello_view_calls hello_view_slots hello_view_model fresh_view_value
      hello_view_value quiet_host_def)

text \<open>
  C9. \<open>change_input\<close> changes nothing of the model but \<open>value\<close>: for every view and every
  content of its text-area, the model afterwards is the model before with \<open>value\<close> set
  to what the text-area displays, so \<open>placeholder\<close>, \<open>title\<close>, \<open>name\<close>, \<open>disabled\<close> and
  \<open>id\<close> are as they were.
\<close>

theorem change_input_frame:
  assumes "inputEl s = Some e"
  shows "\<exists>s'. change_input h s =
             (if hook_raises h (model s') then Inl (HookError, s') else Inr s') \<and>
           model s' = (model s)\<lparr>value_attr := value_of e\<rparr> \<and>
           placeholder (model s') = placeholder (model s) \<and>
           title (model s') = title (model s) \<and>
           name (model s') = name (model s) \<and>
           disabled (model s') = disabled (model s) \<and>
           id_attr (model s') = id_attr (model s)"
proof -
  let ?s' = "call SuperChangeInput (set_value (notifies h) (value_of e)
      (call (LoggerDebug (''widget/textarea: value = '' @ value_of e)) s))"
  have "change_input h s = (if hook_raises h (model ?s') then Inl (HookError, ?s') else Inr ?s')"
    using assms by (rule change_input_Some)
  moreover have "model ?s' = (model s)\<lparr>value_attr := value_of e\<rparr>"
    by (simp add: call_def set_value_model)
  ultimately show ?thesis
    by (intro exI [of _ ?s']) simp
qed

theorem change_input_frame_witness:
  "inputEl hello_view = Some ((textarea_of (model fresh_view))\<lparr>content := ''hello''\<rparr>) \<and>
   (\<exists>s'. change_input \<lparr>notifies = (\<lambda>old new. True), hook_raises = (\<lambda>m. False)\<rparr> hello_view =
           Inr s' \<and>
      model s' =
        \<lparr>id_attr = ''1001'', title = ''Notes'', name = ''notes'', disabled = False,
         value_attr = ''hello'', placeholder = ''''\<rparr>)"
proof -
  from change_input_frame [OF hello_view_inputEl,
      of "\<lparr>notifies = (\<lambda>old new. True), hook_raises = (\<lambda>m. False)\<rparr>"]
  obtain s' where
    r: "change_input \<lparr>notifies = (\<lambda>old new. True), hook_raises = (\<lambda>m. False)\<rparr> hello_view =
          Inr s'" and
    m: "model s' = (model hello_view)
          \<lparr>value_attr := value_of ((textarea_of (model fresh_view))\<lparr>content := ''hello''\<rparr>)\<rparr>"
    by auto
  from m have "model s' = (model fresh_view)\<lparr>value_attr := ''hello''\<rparr>"
    by (simp only: hello_view_value hello_view_model)
  then have "model s' =
      \<lparr>id_attr = ''1001'', title = ''Notes'', name = ''notes'', disabled = False,
       value_attr = ''hello'', placeholder = ''''\<rparr>"
    by (simp add: fresh_view_model)
  with r hello_view_inputEl show ?thesis by blast
qed

subsection \<open>The two synchronisation points\<close>

lemma change_input_inputEl:
  assumes "inputEl s = Some e"
  shows "\<exists>s' e'. change_input h s =
             (if hook_raises h (model s') then Inl (HookError, s') else Inr s') \<and>
           inputEl s' = Some e' \<and> value_of e' = value_attr (model s') \<and>
           slots s' = slots s \<and>
           (e \<in> set (el s) \<longrightarrow> e' \<in> set (el s'))"
proof -
  let ?v = "value_of e"
  let ?s1 = "call (LoggerDebug (''widget/textarea: value = '' @ ?v)) s"
  let ?s' = "call SuperChangeInput (set_value (notifies h) ?v ?s1)"
  have r: "change_input h s = (if hook_raises h (model ?s') then Inl (HookError, ?s') else Inr ?s')"
    using assms by (rule change_input_Some)
  have m: "value_attr (model ?s') = ?v"
    by (simp add: call_def set_value_model)
  have sl: "slots ?s' = slots s"
    by (simp add: call_def set_value_slots)
  have idem: "normalize_newlines ?v = ?v"
    by (simp add: value_of_def normalize_newlines_idem)
  show ?thesis
  proof (cases "notifies h (value_attr (model s)) ?v \<and> slots s \<noteq> []")
    case True
    then have i: "inputEl ?s' = Some (textarea_of ((model s)\<lparr>value_attr := ?v\<rparr>))"
      and c: "el ?s' = [label_of ((model s)\<lparr>value_attr := ?v\<rparr>),
                        textarea_of ((model s)\<lparr>value_attr := ?v\<rparr>)]"
      by (simp_all add: call_def set_value_inputEl set_value_el)
    have "value_of (textarea_of ((model s)\<lparr>value_attr := ?v\<rparr>)) = value_attr (model ?s')"
      using idem m by (simp add: value_of_textarea_of)
    with r i c sl show ?thesis
      by (intro exI [of _ ?s'] exI [of _ "textarea_of ((model s)\<lparr>value_attr := ?v\<rparr>)"])
        simp
  next
    case False
    then have i: "inputEl ?s' = Some e" and c: "el ?s' = el s"
      using assms by (auto simp add: call_def set_value_inputEl set_value_el)
    with r m sl show ?thesis
      by (intro exI [of _ ?s'] exI [of _ e]) simp
  qed
qed

text \<open>
  C5, as the code has it. Right after \<open>render\<close>, for every view, the text-area on the
  page displays the model's \<open>value\<close> with its line breaks normalised: a carriage return
  followed by a line feed, or a carriage return alone, shows as one line feed. So it
  displays exactly the model's \<open>value\<close> if and only if that value has no carriage
  return. Right after \<open>change_input\<close> has handled a \<open>change\<close> event, for every view whose
  text-area is on the page, the text-area displays exactly the model's \<open>value\<close>. Nothing
  is said about the time between the two.
\<close>

theorem dom_value_in_sync:
  assumes "inputEl s = Some e" and "e \<in> set (el s)"
  shows "(\<exists>e'. inputEl (render t) = Some e' \<and> e' \<in> set (el (render t)) \<and>
            value_of e' = normalize_newlines (value_attr (model (render t))) \<and>
            (value_of e' = value_attr (model (render t))) =
              (CR \<notin> set (value_attr (model (render t))))) \<and>
         (\<exists>s' e'. change_input h s =
              (if hook_raises h (model s') then Inl (HookError, s') else Inr s') \<and>
            inputEl s' = Some e' \<and> e' \<in> set (el s') \<and>
            value_of e' = value_attr (model s'))"
proof
  show "\<exists>e'. inputEl (render t) = Some e' \<and> e' \<in> set (el (render t)) \<and>
      value_of e' = normalize_newlines (value_attr (model (render t))) \<and>
      (value_of e' = value_attr (model (render t))) =
        (CR \<notin> set (value_attr (model (render t))))"
    by (simp add: render_inputEl render_el render_model value_of_textarea_of
        normalize_newlines_fixed)
next
  from change_input_inputEl [OF assms(1), of h] assms(2)
  show "\<exists>s' e'. change_input h s =
        (if hook_raises h (model s') then Inl (HookError, s') else Inr s') \<and>
      inputEl s' = Some e' \<and> e' \<in> set (el s') \<and> value_of e' = value_attr (model s')"
    by blast
qed

theorem dom_value_in_sync_witness:
  "inputEl hello_view = Some ((textarea_of (model fresh_view))\<lparr>content := ''hello''\<rparr>) \<and>
   (textarea_of (model fresh_view))\<lparr>content := ''hello''\<rparr> \<in> set (el hello_view) \<and>
   value_of ((textarea_of (model fresh_view))\<lparr>content := ''hello''\<rparr>) \<noteq>
     value_attr (model hello_view) \<and>
   (\<exists>s' e'. change_input quiet_host hello_view = Inr s' \<and> inputEl s' = Some e' \<and>
      e' \<in> set (el s') \<and> value_of e' = value_attr (model s'))"
proof -
  have mem: "(textarea_of (model fresh_view))\<lparr>content := ''hello''\<rparr> \<in> set (el hello_view)"
    by (simp add: hello_view_el)
  have ne: "value_of ((textarea_of (model fresh_view))\<lparr>content := ''hello''\<rparr>) \<noteq>
      value_attr (model hello_view)"
    by (simp add: hello_view_value hello_view_model fresh_view_value)
  have q: "\<not> hook_raises quiet_host m" for m
    by (simp add: quiet_host_def)
  from dom_value_in_sync [OF hello_view_inputEl mem, of fresh_view quiet_host]
  have "\<exists>s' e'. change_input quiet_host hello_view = Inr s' \<and> inputEl s' = Some e' \<and>
      e' \<in> set (el s') \<and> value_of e' = value_attr (model s')"
    by (simp add: q)
  with hello_view_inputEl mem ne show ?thesis by blast
qed

text \<open>
  The claim as written fails at the first point: a model whose \<open>value\<close> is two lines
  separated by carriage return and line feed is rendered into a text-area that displays
  the two lines separated by a line feed alone.
\<close>

theorem dom_value_in_sync_counterexample:
  "map_option value_of (inputEl (render crlf_view)) \<noteq>
     Some (value_attr (model (render crlf_view)))"
  using crlf_text_changes
  by (simp add: render_inputEl render_model value_of_textarea_of crlf_view_def
      del: normalize_newlines.simps)

subsection \<open>What can fail after \<open>initialize\<close>\<close>










subsection \<open>Every notification re-renders a connected view\<close>

lemma run_listeners_slots: "slots (final_view (run_listeners h ls s)) = slots s"
proof (induction h ls s rule: run_listeners.induct)
  case (1 h s)
  show ?case by (simp add: final_view_def)
next
  case (2 h ev ls s)
  show ?case
  proof (cases "ev = ''change''")
    case False
    with "2.IH"(2) show ?thesis by simp
  next
    case True
    show ?thesis
    proof (cases "inputEl s")
      case None
      with True show ?thesis by (simp add: change_input_None final_view_def)
    next
      case (Some e)
      from change_input_inputEl [OF Some, of h]
      obtain s' where
        r: "change_input h s = (if hook_raises h (model s') then Inl (HookError, s') else Inr s')"
        and sl: "slots s' = slots s"
        by blast
      show ?thesis
      proof (cases "hook_raises h (model s')")
        case raises: True
        with r sl True show ?thesis by (simp add: final_view_def)
      next
        case returns: False
        with r have c: "change_input h s = Inr s'" by simp
        from "2.IH"(1) [OF True c] c sl True show ?thesis by simp
      qed
    qed
  qed
qed

lemma change_input_slots: "slots (final_view (change_input h s)) = slots s"
proof (cases "inputEl s")
  case None
  then show ?thesis by (simp add: change_input_None final_view_def)
next
  case (Some e)
  from change_input_inputEl [OF Some, of h]
  obtain s' where
    "change_input h s = (if hook_raises h (model s') then Inl (HookError, s') else Inr s')"
    and "slots s' = slots s"
    by blast
  then show ?thesis by (simp add: final_view_def)
qed

lemma step_keeps_slots:
  "slots s \<noteq> [] \<Longrightarrow> slots (final_view (step h x s)) \<noteq> []"
proof (cases x)
  case Render
  assume "slots s \<noteq> []"
  with Render show ?thesis by (simp add: final_view_def render_slots)
next
  case ConnectSignals
  then show ?thesis by (simp add: final_view_def connect_signals_slots)
next
  case ChangeInput
  assume "slots s \<noteq> []"
  with ChangeInput show ?thesis by (simp add: change_input_slots)
next
  case FireChange
  assume ne: "slots s \<noteq> []"
  show ?thesis
  proof (cases "inputEl s")
    case None
    with FireChange ne show ?thesis by (simp add: dispatch_change_def final_view_def)
  next
    case (Some e)
    with FireChange ne show ?thesis by (simp add: dispatch_change_def run_listeners_slots)
  qed
next
  case (UserEdit typed)
  assume "slots s \<noteq> []"
  with UserEdit show ?thesis by (simp add: final_view_def user_edit_slots)
next
  case (ModelChange m)
  assume "slots s \<noteq> []"
  with ModelChange show ?thesis by (simp add: final_view_def model_changed_def emit_change_slots)
qed

lemma exec_keeps_slots: "slots s \<noteq> [] \<Longrightarrow> slots (exec h xs s) \<noteq> []"
proof (induction xs arbitrary: s)
  case Nil
  then show ?case by simp
next
  case (Cons x xs)
  from Cons.IH [OF step_keeps_slots [OF Cons.prems, of h x]] show ?case by simp
qed

lemma connected_slots: "slots (exec h xs (connect_signals s)) \<noteq> []"
  by (rule exec_keeps_slots) (simp add: connect_signals_slots)

text \<open>
  C4, as the code has it. Once \<open>connect_signals\<close> has run, and whatever has happened to
  the view since, every change notification of the model ends in a full re-render:
  emitting \<open>change\<close> leaves the view showing the label and the text-area of the model's
  current attributes, and when the host has changed tracked properties so that the model
  has the attributes \<open>m\<close>, the view shows the label and the text-area of \<open>m\<close>. After the
  model's \<open>value\<close> is set to \<open>v\<close>, the rendered text-area has \<open>v\<close> as its content and
  displays \<open>v\<close> with its line breaks normalised, which is \<open>v\<close> itself if and only if \<open>v\<close>
  has no carriage return.
\<close>

theorem connected_view_rerenders:
  "el (emit_change (exec h xs (connect_signals s))) =
     [label_of (model (exec h xs (connect_signals s))),
      textarea_of (model (exec h xs (connect_signals s)))] \<and>
   inputEl (emit_change (exec h xs (connect_signals s))) =
     Some (textarea_of (model (exec h xs (connect_signals s)))) \<and>
   el (model_changed m (exec h xs (connect_signals s))) = [label_of m, textarea_of m] \<and>
   inputEl (model_changed m (exec h xs (connect_signals s))) = Some (textarea_of m) \<and>
   model (model_changed m (exec h xs (connect_signals s))) = m \<and>
   content (textarea_of m) = value_attr m \<and>
   value_of (textarea_of m) = normalize_newlines (value_attr m) \<and>
   (value_of (textarea_of m) = value_attr m) = (CR \<notin> set (value_attr m)) \<and>
   inputEl (render (set_value n v (exec h xs (connect_signals s)))) =
     Some (textarea_of ((model (exec h xs (connect_signals s)))\<lparr>value_attr := v\<rparr>))"
proof -
  let ?t = "exec h xs (connect_signals s)"
  have ne: "slots ?t \<noteq> []"
    by (rule connected_slots)
  have a: "el (emit_change ?t) = [label_of (model ?t), textarea_of (model ?t)]"
    and b: "inputEl (emit_change ?t) = Some (textarea_of (model ?t))"
    using ne by (simp_all add: emit_change_el emit_change_inputEl)
  from ne have c: "el (model_changed m ?t) = [label_of m, textarea_of m] \<and>
      inputEl (model_changed m ?t) = Some (textarea_of m) \<and>
      model (model_changed m ?t) = m"
    by (rule model_changed_connected)
  have d: "(value_of (textarea_of m) = value_attr m) = (CR \<notin> set (value_attr m))"
    by (simp add: value_of_textarea_of normalize_newlines_fixed)
  have e: "inputEl (render (set_value n v ?t)) = Some (textarea_of ((model ?t)\<lparr>value_attr := v\<rparr>))"
    by (simp add: render_inputEl set_value_model)
  from a b c d e show ?thesis
    by (simp add: content_textarea_of value_of_textarea_of)
qed

text \<open>
  The claim as written fails in its last part: when the model's \<open>value\<close> is set to two
  lines separated by carriage return and line feed, the text-area that the notification
  renders does not display that value but the two lines separated by a line feed alone.
\<close>

theorem connected_view_rerenders_counterexample:
  "map_option value_of
     (inputEl (model_changed ((model fresh_view)\<lparr>value_attr := crlf_text\<rparr>)
        (connect_signals (initialize () fresh_view)))) \<noteq>
   Some crlf_text"
proof -
  have "slots (connect_signals (initialize () fresh_view)) \<noteq> []"
    by (simp add: connect_signals_slots)
  from model_changed_connected [OF this, of "(model fresh_view)\<lparr>value_attr := crlf_text\<rparr>"]
    crlf_text_changes
  show ?thesis
    by (simp add: value_of_textarea_of del: normalize_newlines.simps)
qed

end
